theory Spec2Isabelle
  imports Complex_Main "HOL-Library.Log_Nat"
begin

text \<open>
  A model of \<open>src/texture.js\<close>, the texture object of PicoGL.js: its constructor and
  its methods \<open>resize\<close>, \<open>data\<close>, \<open>delete\<close> and \<open>bind\<close>, over a graphics context
  that records the calls made on it.
\<close>

section \<open>JavaScript values\<close>

text \<open>
  The values that reach \<open>src/texture.js\<close> through its arguments and its options bag.
  Numbers are the integers (pixel counts, GL enums, level indices); a number argument
  that is \<open>NaN\<close> or fractional is outside the model. \<open>Undefined\<close> is also the value of
  an omitted argument and of a property that is not there.

  The code computes with doubles. Comparison and \<open>Math.max\<close> of integers are the same
  there as here. Addition and the logarithm are not, once the numbers are large: the
  model follows them only in the range where the double result is the integer one, and
  answers \<open>Rounded\<close> outside it.
\<close>

datatype jsval = Undefined | Null | Bool bool | Num int

text \<open>Truthiness, as \<open>||\<close> and \<open>if (...)\<close> test it.\<close>

fun truthy :: "jsval \<Rightarrow> bool" where
  "truthy Undefined = False"
| "truthy Null = False"
| "truthy (Bool b) = b"
| "truthy (Num n) = (n \<noteq> 0)"

text \<open>\<open>a || b\<close> for an operand \<open>b\<close> whose evaluation cannot throw.\<close>

definition js_or :: "jsval \<Rightarrow> jsval \<Rightarrow> jsval" where
  "js_or a b = (if truthy a then a else b)"

text \<open>\<open>x !== undefined ? x : d\<close>, the options bag's defaulting idiom.\<close>

definition default_to :: "jsval \<Rightarrow> jsval \<Rightarrow> jsval" where
  "default_to x d = (if x \<noteq> Undefined then x else d)"

text \<open>
  The results of arithmetic: \<open>Math.log2(0)\<close> is \<open>-Infinity\<close>, and \<open>Math.max\<close> and
  \<open>Math.log2\<close> answer \<open>NaN\<close> for \<open>undefined\<close> and for a negative argument.
  \<open>Rounded\<close> stands for a double that the model does not determine: the result of an
  operation outside the range in which doubles compute as the integers do.
\<close>

datatype jsnum = NaN | NegInfinity | Finite int | Rounded

text \<open>
  The integers that doubles hold without gaps, up to \<open>2^53\<close> on either side of zero.
\<close>

definition exact :: "int \<Rightarrow> bool" where
  "exact n = (\<bar>n\<bar> \<le> 9007199254740992)"

text \<open>
  \<open>a + b\<close> on numbers: the sum of two doubles is the sum of the integers when both
  and their sum are held exactly.
\<close>

definition js_plus :: "int \<Rightarrow> int \<Rightarrow> jsnum" where
  "js_plus a b = (if exact a \<and> exact b \<and> exact (a + b) then Finite (a + b) else Rounded)"

text \<open>ToNumber, applied by \<open>Math.max\<close> to each argument.\<close>

fun to_number :: "jsval \<Rightarrow> jsnum" where
  "to_number Undefined = NaN"
| "to_number Null = Finite 0"
| "to_number (Bool b) = Finite (if b then 1 else 0)"
| "to_number (Num n) = Finite n"

fun Math_max :: "jsnum \<Rightarrow> jsnum \<Rightarrow> jsnum" where
  "Math_max NaN y = NaN"
| "Math_max x NaN = NaN"
| "Math_max Rounded y = Rounded"
| "Math_max x Rounded = Rounded"
| "Math_max NegInfinity y = y"
| "Math_max x NegInfinity = x"
| "Math_max (Finite a) (Finite b) = Finite (max a b)"

text \<open>The integer part of the binary logarithm of a positive integer, by halving.\<close>

fun ilog2 :: "nat \<Rightarrow> nat" where
  "ilog2 n = (if n < 2 then 0 else 1 + ilog2 (n div 2))"

declare ilog2.simps [simp del]

text \<open>
  The largest \<open>GLsizei\<close>, the type of the dimensions that \<open>texStorage2D\<close> and
  \<open>texStorage3D\<close> take: \<open>2^31 - 1\<close>.
\<close>

definition GLsizei_max :: int where
  "GLsizei_max = 2147483647"

text \<open>
  \<open>Math.floor(Math.log2(x))\<close>: \<open>NaN\<close> below zero, \<open>-Infinity\<close> at zero, and above
  zero the integer part of the logarithm, for every \<open>x\<close> that is a \<open>GLsizei\<close>. The
  double logarithm of such an \<open>x\<close> is far enough from the next integer for its floor
  to be the exact one; for larger \<open>x\<close> it rounds up to the next integer sooner or later
  (at \<open>2^49 - 1\<close> it is 49.0), and the model leaves the result open.
\<close>

fun floor_log2 :: "jsnum \<Rightarrow> jsnum" where
  "floor_log2 NaN = NaN"
| "floor_log2 NegInfinity = NaN"
| "floor_log2 Rounded = Rounded"
| "floor_log2 (Finite n) =
     (if n < 0 then NaN else if n = 0 then NegInfinity
      else if n \<le> GLsizei_max then Finite (int (ilog2 (nat n))) else Rounded)"

text \<open>\<open>x + 1\<close> on a \<open>Math\<close> result.\<close>

fun plus1 :: "jsnum \<Rightarrow> jsnum" where
  "plus1 NaN = NaN"
| "plus1 NegInfinity = NegInfinity"
| "plus1 Rounded = Rounded"
| "plus1 (Finite k) = (if exact k \<and> exact (k + 1) then Finite (k + 1) else Rounded)"

datatype error = TypeError

section \<open>The arguments of the constructor\<close>

text \<open>
  The initial image: absent (\<open>undefined\<close> or \<open>null\<close>), or an object whose \<open>width\<close> and
  \<open>height\<close> properties have the given values (\<open>Undefined\<close> for a typed array, which has
  neither).
\<close>

datatype image = NoImage | Image jsval jsval

text \<open>\<open>image.width\<close> and \<open>image.height\<close>: reading a property of nothing throws.\<close>

fun image_width :: "image \<Rightarrow> error + jsval" where
  "image_width NoImage = Inl TypeError"
| "image_width (Image w h) = Inr w"

fun image_height :: "image \<Rightarrow> error + jsval" where
  "image_height NoImage = Inl TypeError"
| "image_height (Image w h) = Inr h"

text \<open>The options bag; a field that the caller left out reads \<open>Undefined\<close>.\<close>

record options =
  opt_format :: jsval
  opt_type :: jsval
  opt_internalFormat :: jsval
  opt_minFilter :: jsval
  opt_magFilter :: jsval
  opt_wrapS :: jsval
  opt_wrapT :: jsval
  opt_wrapR :: jsval
  opt_compareMode :: jsval
  opt_compareFunc :: jsval
  opt_minLOD :: jsval
  opt_maxLOD :: jsval
  opt_flipY :: jsval
  opt_baseLevel :: jsval
  opt_maxLevel :: jsval
  opt_generateMipmaps :: jsval

text \<open>
  Modelled from the spec: \<open>CONSTANTS.DUMMY_OBJECT\<close> (\<open>constants.js\<close> is not among the
  sources) stands in for an omitted options bag, every option of which then takes its
  stated default: the bag with no option set.
\<close>

definition DUMMY_OBJECT :: options where
  "DUMMY_OBJECT =
     \<lparr>opt_format = Undefined, opt_type = Undefined, opt_internalFormat = Undefined,
      opt_minFilter = Undefined, opt_magFilter = Undefined, opt_wrapS = Undefined,
      opt_wrapT = Undefined, opt_wrapR = Undefined, opt_compareMode = Undefined,
      opt_compareFunc = Undefined, opt_minLOD = Undefined, opt_maxLOD = Undefined,
      opt_flipY = Undefined, opt_baseLevel = Undefined, opt_maxLevel = Undefined,
      opt_generateMipmaps = Undefined\<rparr>"

section \<open>The graphics context\<close>

text \<open>
  The enums that the code reads off the context. Their values belong to the context,
  so they are a parameter of the model.
\<close>

record gl_enums =
  RGBA :: int
  UNSIGNED_BYTE :: int
  LINEAR_MIPMAP_NEAREST :: int
  LINEAR_MIPMAP_LINEAR :: int
  LINEAR :: int
  REPEAT :: int
  NONE :: int
  LEQUAL :: int
  TEXTURE_MIN_FILTER :: int
  TEXTURE_MAG_FILTER :: int
  TEXTURE_WRAP_S :: int
  TEXTURE_WRAP_T :: int
  TEXTURE_WRAP_R :: int
  TEXTURE_COMPARE_FUNC :: int
  TEXTURE_COMPARE_MODE :: int
  TEXTURE_MIN_LOD :: int
  TEXTURE_MAX_LOD :: int
  UNPACK_FLIP_Y_WEBGL :: int
  TEXTURE_BASE_LEVEL :: int
  TEXTURE_MAX_LEVEL :: int
  TEXTURE0 :: int

text \<open>
  A handle to a GPU object is \<open>Some\<close> of its number, \<open>None\<close> is \<open>null\<close>. Every call
  that the code makes on the context is recorded with its arguments, in order.
\<close>

datatype gl_call =
    createSampler
  | samplerParameteri "nat option" int jsval
  | samplerParameterf "nat option" int jsval
  | deleteSampler "nat option"
  | createTexture
  | deleteTexture "nat option"
  | activeTexture jsnum
  | bindTexture jsval "nat option"
  | bindSampler int "nat option"
  | pixelStorei int jsval
  | texParameteri jsval int jsval
  | texStorage2D jsval jsnum jsval jsval jsval
  | texStorage3D jsval jsnum jsval jsval jsval jsval
  | texSubImage2D jsval int int int jsval jsval jsval jsval image
  | texSubImage3D jsval int int int int jsval jsval jsval jsval jsval image
  | generateMipmap jsval

text \<open>
  The context: its enums, the calls made on it so far, and the number of the next
  object it creates (\<open>createTexture\<close> and \<open>createSampler\<close> of a context that is not
  lost return a new object each time).
\<close>

record gl_context =
  enums :: gl_enums
  calls :: "gl_call list"
  fresh :: nat

text \<open>
  What the texture shares with the rest of the application: the context and the
  tracked state \<open>appState\<close>, whose structure the code never looks into.
\<close>

record 's world =
  gl :: gl_context
  appState :: 's

definition issue :: "gl_call \<Rightarrow> 's world \<Rightarrow> 's world" where
  "issue c w = w\<lparr>gl := (gl w)\<lparr>calls := calls (gl w) @ [c]\<rparr>\<rparr>"

definition create :: "gl_call \<Rightarrow> 's world \<Rightarrow> nat option \<times> 's world" where
  "create c w =
     (Some (fresh (gl w)), w\<lparr>gl := (gl w)\<lparr>calls := calls (gl w) @ [c], fresh := fresh (gl w) + 1\<rparr>\<rparr>)"

section \<open>The texture\<close>

text \<open>
  The fields of a \<open>Texture\<close>. Its \<open>gl\<close> and \<open>appState\<close> fields are references to the
  shared objects, which the operations receive as the \<open>world\<close>.
\<close>

record Texture =
  binding :: jsval
  texture :: "nat option"
  width :: jsval
  height :: jsval
  depth :: jsval
  format :: jsval
  type :: jsval
  internalFormat :: jsval
  is3D :: bool
  sampler :: "nat option"
  flipY :: jsval
  baseLevel :: jsval
  maxLevel :: jsval
  generateMipmaps :: bool

text \<open>
  \<open>Texture.prototype.bind\<close>. The unit it activates is the double sum
  \<open>gl.TEXTURE0 + unit\<close>; the unit it binds the sampler to is \<open>unit\<close> itself.
\<close>

definition bind :: "int \<Rightarrow> Texture \<times> 's world \<Rightarrow> Texture \<times> 's world" where
  "bind unit s =
     (let this = fst s; w = snd s;
          w = issue (activeTexture (js_plus (TEXTURE0 (enums (gl w))) unit)) w;
          w = issue (bindTexture (binding this) (texture this)) w;
          w = issue (bindSampler unit (sampler this)) w
      in (this, w))"

text \<open>The level count that \<open>resize\<close> computes when mipmaps are on.\<close>

definition levels3D :: "Texture \<Rightarrow> jsnum" where
  "levels3D this =
     plus1 (floor_log2 (Math_max (Math_max (to_number (width this)) (to_number (height this)))
                                 (to_number (depth this))))"

definition levels2D :: "Texture \<Rightarrow> jsnum" where
  "levels2D this =
     plus1 (floor_log2 (Math_max (to_number (width this)) (to_number (height this))))"

text \<open>
  \<open>Texture.prototype.resize\<close>, in two parts: \<open>reallocate\<close> is the body from line 115
  on, which runs when the guard of line 111 lets it, with the depth already defaulted.
\<close>

definition reallocate :: "jsval \<Rightarrow> jsval \<Rightarrow> jsval \<Rightarrow> Texture \<times> 's world \<Rightarrow> Texture \<times> 's world" where
  "reallocate width0 height0 depth1 s =
     (let this = fst s; w = snd s;
          w = issue (deleteTexture (texture this)) w;
          r = create createTexture w;
          this = this\<lparr>texture := fst r\<rparr>;
          b = bind 0 (this, snd r);
          this = (fst b)\<lparr>width := width0, height := height0, depth := depth1\<rparr>;
          w = snd b;
          e = enums (gl w);
          w = issue (pixelStorei (UNPACK_FLIP_Y_WEBGL e) (flipY this)) w;
          w = (if baseLevel this \<noteq> Null
               then issue (texParameteri (binding this) (TEXTURE_BASE_LEVEL e) (baseLevel this)) w
               else w);
          w = (if maxLevel this \<noteq> Null
               then issue (texParameteri (binding this) (TEXTURE_MAX_LEVEL e) (maxLevel this)) w
               else w)
      in if is3D this
         then (this, issue (texStorage3D (binding this)
                              (if generateMipmaps this then levels3D this else Finite 1)
                              (internalFormat this) (width this) (height this) (depth this)) w)
         else (this, issue (texStorage2D (binding this)
                              (if generateMipmaps this then levels2D this else Finite 1)
                              (internalFormat this) (width this) (height this)) w))"

definition resize :: "jsval \<Rightarrow> jsval \<Rightarrow> jsval \<Rightarrow> Texture \<times> 's world \<Rightarrow> Texture \<times> 's world" where
  "resize width0 height0 depth0 s =
     (let this = fst s;
          depth1 = js_or depth0 (Num 0)
      in if width0 = width this \<and> height0 = height this \<and> depth1 = depth this then s
         else reallocate width0 height0 depth1 s)"

text \<open>\<open>Texture.prototype.data\<close>; an image object is truthy.\<close>

definition data :: "image \<Rightarrow> Texture \<times> 's world \<Rightarrow> Texture \<times> 's world" where
  "data d s =
     (case d of
        NoImage \<Rightarrow> s
      | Image iw ih \<Rightarrow>
          let this = fst s; w = snd s;
              w = (if is3D this
                   then issue (texSubImage3D (binding this) 0 0 0 0 (width this) (height this)
                                 (depth this) (format this) (type this) d) w
                   else issue (texSubImage2D (binding this) 0 0 0 (width this) (height this)
                                 (format this) (type this) d) w);
              w = (if generateMipmaps this then issue (generateMipmap (binding this)) w else w)
          in (this, w))"

text \<open>\<open>Texture.prototype.delete\<close>; a handle to an object is truthy, \<open>null\<close> is not.\<close>

definition delete :: "Texture \<times> 's world \<Rightarrow> Texture \<times> 's world" where
  "delete s =
     (let this = fst s; w = snd s
      in case texture this of
           None \<Rightarrow> s
         | Some h \<Rightarrow>
             let w = issue (deleteTexture (texture this)) w;
                 w = issue (deleteSampler (sampler this)) w
             in (this\<lparr>texture := None, sampler := None\<rparr>, w))"

text \<open>
  \<open>TEXTURE_FORMAT_DEFAULTS[type][format]\<close>. The table (\<open>texture-format-defaults.js\<close>) is
  a parameter: a row for each type it knows, and in a row \<open>Undefined\<close> for a format it
  does not list. Indexing the row of a type that the table does not know throws.
\<close>

definition format_default :: "(jsval \<rightharpoonup> (jsval \<Rightarrow> jsval)) \<Rightarrow> jsval \<Rightarrow> jsval \<Rightarrow> error + jsval" where
  "format_default tfd ty fmt = (case tfd ty of None \<Rightarrow> Inl TypeError | Some row \<Rightarrow> Inr (row fmt))"

text \<open>
  The sampler part of the constructor (lines 63 to 86): the sampler is created and
  programmed, and its handle returned.
\<close>

definition init_sampler :: "options \<Rightarrow> 's world \<Rightarrow> nat option \<times> 's world" where
  "init_sampler opts w0 =
     (let e = enums (gl w0);
          minFilter = default_to (opt_minFilter opts) (Num (LINEAR_MIPMAP_NEAREST e));
          magFilter = default_to (opt_magFilter opts) (Num (LINEAR e));
          wrapS = default_to (opt_wrapS opts) (Num (REPEAT e));
          wrapT = default_to (opt_wrapT opts) (Num (REPEAT e));
          wrapR = default_to (opt_wrapR opts) (Num (REPEAT e));
          compareMode = default_to (opt_compareMode opts) (Num (NONE e));
          compareFunc = default_to (opt_compareFunc opts) (Num (LEQUAL e));
          minLOD = default_to (opt_minLOD opts) Null;
          maxLOD = default_to (opt_maxLOD opts) Null;
          r = create createSampler w0;
          smp = fst r;
          w = snd r;
          w = issue (samplerParameteri smp (TEXTURE_MIN_FILTER e) minFilter) w;
          w = issue (samplerParameteri smp (TEXTURE_MAG_FILTER e) magFilter) w;
          w = issue (samplerParameteri smp (TEXTURE_WRAP_S e) wrapS) w;
          w = issue (samplerParameteri smp (TEXTURE_WRAP_T e) wrapT) w;
          w = issue (samplerParameteri smp (TEXTURE_WRAP_R e) wrapR) w;
          w = issue (samplerParameteri smp (TEXTURE_COMPARE_FUNC e) compareFunc) w;
          w = issue (samplerParameteri smp (TEXTURE_COMPARE_MODE e) compareMode) w;
          w = (if minLOD \<noteq> Null then issue (samplerParameterf smp (TEXTURE_MIN_LOD e) minLOD) w else w);
          w = (if maxLOD \<noteq> Null then issue (samplerParameterf smp (TEXTURE_MAX_LOD e) maxLOD) w else w)
      in (smp, w))"

text \<open>
  The object as the constructor has set it up when it reaches line 95, before the
  first \<open>resize\<close>.
\<close>

definition init_fields ::
  "gl_enums \<Rightarrow> jsval \<Rightarrow> bool \<Rightarrow> options \<Rightarrow> jsval \<Rightarrow> nat option \<Rightarrow> Texture" where
  "init_fields e binding0 is3D0 opts internalFormat0 smp =
     \<lparr>binding = binding0,
      texture = None,
      width = Num (- 1),
      height = Num (- 1),
      depth = Num (- 1),
      format = default_to (opt_format opts) (Num (RGBA e)),
      type = default_to (opt_type opts) (Num (UNSIGNED_BYTE e)),
      internalFormat = internalFormat0,
      is3D = is3D0,
      sampler = smp,
      flipY = default_to (opt_flipY opts) (Bool False),
      baseLevel = default_to (opt_baseLevel opts) Null,
      maxLevel = default_to (opt_maxLevel opts) Null,
      generateMipmaps =
        (opt_generateMipmaps opts \<noteq> Bool False \<and>
         (default_to (opt_minFilter opts) (Num (LINEAR_MIPMAP_NEAREST e)) = Num (LINEAR_MIPMAP_NEAREST e) \<or>
          default_to (opt_minFilter opts) (Num (LINEAR_MIPMAP_NEAREST e)) = Num (LINEAR_MIPMAP_LINEAR e)))\<rparr>"

text \<open>\<open>options || CONSTANTS.DUMMY_OBJECT\<close>; an omitted bag is \<open>None\<close>, a bag is truthy.\<close>

definition given_options :: "options option \<Rightarrow> options" where
  "given_options options0 = (case options0 of None \<Rightarrow> DUMMY_OBJECT | Some given \<Rightarrow> given)"

text \<open>
  The constructor \<open>Texture(gl, appState, binding, image, width, height, depth, is3D,
  options)\<close>. \<open>gl\<close> and \<open>appState\<close> are the world \<open>w0\<close>. The three places that can throw (lines 46, 47 and 58) come before the first
  call on the context.
\<close>

definition Texture_new ::
  "(jsval \<rightharpoonup> (jsval \<Rightarrow> jsval)) \<Rightarrow> 's world \<Rightarrow> jsval \<Rightarrow> image \<Rightarrow> jsval \<Rightarrow> jsval \<Rightarrow> jsval \<Rightarrow> bool \<Rightarrow>
   options option \<Rightarrow> error + Texture \<times> 's world" where
  "Texture_new tfd w0 binding0 image0 width0 height0 depth0 is3D0 options0 =
     (case (if truthy width0 then Inr width0 else image_width image0) of
        Inl err \<Rightarrow> Inl err
      | Inr width1 \<Rightarrow>
     (case (if truthy height0 then Inr height0 else image_height image0) of
        Inl err \<Rightarrow> Inl err
      | Inr height1 \<Rightarrow>
     (let opts = given_options options0;
          e = enums (gl w0)
      in case (if opt_internalFormat opts \<noteq> Undefined then Inr (opt_internalFormat opts)
               else format_default tfd (default_to (opt_type opts) (Num (UNSIGNED_BYTE e)))
                                       (default_to (opt_format opts) (Num (RGBA e)))) of
           Inl err \<Rightarrow> Inl err
         | Inr internalFormat0 \<Rightarrow>
             let r = init_sampler opts w0;
                 this = init_fields e binding0 is3D0 opts internalFormat0 (fst r)
             in Inr (bind 0 (data image0 (resize width1 height1 depth0 (this, snd r)))))))"

section \<open>Sequences of operations\<close>

text \<open>The calls a client makes on a texture between its construction and its deletion.\<close>

datatype operation = Resize jsval jsval jsval | Data image | Bind int

fun apply_operation :: "operation \<Rightarrow> Texture \<times> 's world \<Rightarrow> Texture \<times> 's world" where
  "apply_operation (Resize w h d) s = resize w h d s"
| "apply_operation (Data d) s = data d s"
| "apply_operation (Bind unit) s = bind unit s"

fun run :: "operation list \<Rightarrow> Texture \<times> 's world \<Rightarrow> Texture \<times> 's world" where
  "run [] s = s"
| "run (x # xs) s = run xs (apply_operation x s)"

text \<open>The calls that create or program a sampler.\<close>

fun sampler_setup :: "gl_call \<Rightarrow> bool" where
  "sampler_setup createSampler = True"
| "sampler_setup (samplerParameteri smp p v) = True"
| "sampler_setup (samplerParameterf smp p v) = True"
| "sampler_setup c = False"

fun sampler_parameter :: "gl_call \<Rightarrow> bool" where
  "sampler_parameter (samplerParameteri smp p v) = True"
| "sampler_parameter (samplerParameterf smp p v) = True"
| "sampler_parameter c = False"

text \<open>
  Every handle that the texture holds was created by the context it lives in, so it
  has a number below the next one that the context gives out.
\<close>

definition owned :: "nat option \<Rightarrow> 's world \<Rightarrow> bool" where
  "owned h w = (case h of None \<Rightarrow> True | Some n \<Rightarrow> n < fresh (gl w))"

definition handles_owned :: "Texture \<times> 's world \<Rightarrow> bool" where
  "handles_owned s = (owned (texture (fst s)) (snd s) \<and> owned (sampler (fst s)) (snd s))"

section \<open>A concrete context\<close>

text \<open>The enums with the values that WebGL 2 gives them.\<close>

definition webgl2_enums :: gl_enums where
  "webgl2_enums =
     \<lparr>RGBA = 6408, UNSIGNED_BYTE = 5121, LINEAR_MIPMAP_NEAREST = 9985,
      LINEAR_MIPMAP_LINEAR = 9987, LINEAR = 9729, REPEAT = 10497, NONE = 0, LEQUAL = 515,
      TEXTURE_MIN_FILTER = 10241, TEXTURE_MAG_FILTER = 10240, TEXTURE_WRAP_S = 10242,
      TEXTURE_WRAP_T = 10243, TEXTURE_WRAP_R = 32882, TEXTURE_COMPARE_FUNC = 34893,
      TEXTURE_COMPARE_MODE = 34892, TEXTURE_MIN_LOD = 33082, TEXTURE_MAX_LOD = 33083,
      UNPACK_FLIP_Y_WEBGL = 37440, TEXTURE_BASE_LEVEL = 33084, TEXTURE_MAX_LEVEL = 33085,
      TEXTURE0 = 33984\<rparr>"

text \<open>A context on which nothing has been called yet, beside an application state.\<close>

definition new_world :: "'s \<Rightarrow> 's world" where
  "new_world st = \<lparr>gl = \<lparr>enums = webgl2_enums, calls = [], fresh = 0\<rparr>, appState = st\<rparr>"

text \<open>A defaults table with the one row \<open>UNSIGNED_BYTE: {RGBA: RGBA8}\<close>.\<close>

definition small_table :: "jsval \<rightharpoonup> (jsval \<Rightarrow> jsval)" where
  "small_table ty =
     (if ty = Num 5121 then Some (\<lambda>fmt. if fmt = Num 6408 then Num 32856 else Undefined) else None)"

text \<open>\<open>TEXTURE_2D\<close> and \<open>TEXTURE_3D\<close>, for the binding argument.\<close>

definition TEXTURE_2D :: jsval where
  "TEXTURE_2D = Num 3553"

definition TEXTURE_3D :: jsval where
  "TEXTURE_3D = Num 32879"

text \<open>The state of a 2D texture with no options when its constructor reaches line 95.\<close>

definition blank :: "'s \<Rightarrow> Texture \<times> 's world" where
  "blank st =
     (init_fields webgl2_enums TEXTURE_2D False DUMMY_OBJECT (Num 32856) (Some 0),
      snd (init_sampler DUMMY_OBJECT (new_world st)))"

text \<open>The same for a 3D texture.\<close>

definition blank3D :: "'s \<Rightarrow> Texture \<times> 's world" where
  "blank3D st =
     (init_fields webgl2_enums TEXTURE_3D True DUMMY_OBJECT (Num 32856) (Some 0),
      snd (init_sampler DUMMY_OBJECT (new_world st)))"

text \<open>
  What \<open>new Texture(gl, appState, gl.TEXTURE_2D, undefined, 4, 2, undefined, false,
  opts)\<close> returns on that context with that table, for options that leave the pixel
  layout to the defaults.
\<close>

definition made :: "options \<Rightarrow> 's \<Rightarrow> Texture \<times> 's world" where
  "made opts st =
     bind 0 (data NoImage (resize (Num 4) (Num 2) Undefined
       (init_fields webgl2_enums TEXTURE_2D False opts (Num 32856)
          (fst (init_sampler opts (new_world st))),
        snd (init_sampler opts (new_world st)))))"

section \<open>Summaries of the calls that \<open>resize\<close> issues\<close>

text \<open>The level clamps of lines 126 to 132, as the list of calls they make.\<close>

definition level_clamps :: "Texture \<Rightarrow> gl_enums \<Rightarrow> gl_call list" where
  "level_clamps this e =
     (if baseLevel this \<noteq> Null
      then [texParameteri (binding this) (TEXTURE_BASE_LEVEL e) (baseLevel this)] else []) @
     (if maxLevel this \<noteq> Null
      then [texParameteri (binding this) (TEXTURE_MAX_LEVEL e) (maxLevel this)] else [])"

text \<open>The storage allocation of lines 134 to 149, for a texture with its new dimensions.\<close>

definition storage_call :: "Texture \<Rightarrow> gl_call" where
  "storage_call this =
     (if is3D this
      then texStorage3D (binding this) (if generateMipmaps this then levels3D this else Finite 1)
             (internalFormat this) (width this) (height this) (depth this)
      else texStorage2D (binding this) (if generateMipmaps this then levels2D this else Finite 1)
             (internalFormat this) (width this) (height this))"

fun storage_alloc :: "gl_call \<Rightarrow> bool" where
  "storage_alloc (texStorage2D b l f w h) = True"
| "storage_alloc (texStorage3D b l f w h d) = True"
| "storage_alloc c = False"

section \<open>The tracked state\<close>

text \<open>
  Modelled from the spec: the structure of \<open>appState\<close> is defined outside
  \<open>texture.js\<close>. The spec describes it as a binding table with a slot for the
  "currently bound resource for unit N": here a slot holds the texture it refers to, or
  nothing.
\<close>

type_synonym binding_table = "int \<Rightarrow> Texture option"

definition nothing_bound :: binding_table where
  "nothing_bound = (\<lambda>unit. None)"

definition bound_at :: "binding_table \<Rightarrow> int \<Rightarrow> Texture \<Rightarrow> bool" where
  "bound_at table unit this = (table unit = Some this)"

section \<open>The logarithm\<close>

text \<open>
  \<open>ilog2\<close> computes what the formula \<open>floor(log2(n))\<close> denotes over the reals, for
  every positive \<open>n\<close>.
\<close>

lemma ilog2_floorlog: "0 < n \<Longrightarrow> Suc (ilog2 n) = floorlog 2 n"
proof (induction n rule: ilog2.induct)
  case (1 n)
  show ?case
  proof (cases "n < 2")
    case True
    with "1.prems" have "n = 1" by simp
    then show ?thesis by (simp add: ilog2.simps compute_floorlog)
  next
    case False
    then have "0 < n div 2" by simp
    with False "1.IH" have "Suc (ilog2 (n div 2)) = floorlog 2 (n div 2)" by simp
    with False "1.prems" show ?thesis
      by (subst ilog2.simps, subst compute_floorlog) simp
  qed
qed

lemma ilog2_floor_log: "0 < n \<Longrightarrow> int (ilog2 n) = \<lfloor>log 2 (real n)\<rfloor>"
proof -
  assume pos: "0 < n"
  then have "0 \<le> log 2 (real n)" by simp
  then have nonneg: "0 \<le> \<lfloor>log 2 (real n)\<rfloor>" by simp
  from pos have "Suc (ilog2 n) = nat \<lfloor>log 2 (real n)\<rfloor> + 1"
    by (simp add: ilog2_floorlog floorlog_def)
  then have "ilog2 n = nat \<lfloor>log 2 (real n)\<rfloor>" by simp
  with nonneg show ?thesis by simp
qed

lemma ilog2_small: "n < 2 ^ k \<Longrightarrow> ilog2 n \<le> k"
proof (induction k arbitrary: n)
  case 0
  then show ?case by (simp add: ilog2.simps)
next
  case (Suc k)
  show ?case
  proof (cases "n < 2")
    case True
    then show ?thesis by (simp add: ilog2.simps)
  next
    case False
    from Suc.prems have "n div 2 < 2 ^ k" by simp
    then have "ilog2 (n div 2) \<le> k" by (rule Suc.IH)
    with False show ?thesis by (subst ilog2.simps) simp
  qed
qed

lemma floor_log2_pos:
  assumes "0 < n" and "n \<le> GLsizei_max"
  shows "plus1 (floor_log2 (Finite n)) = Finite (\<lfloor>log 2 (real_of_int n)\<rfloor> + 1)"
proof -
  from assms(2) have "nat n < 2 ^ 31"
    by (simp add: GLsizei_max_def)
  then have "ilog2 (nat n) \<le> 31"
    by (rule ilog2_small)
  then have "exact (int (ilog2 (nat n))) \<and> exact (int (ilog2 (nat n)) + 1)"
    by (simp add: exact_def)
  with assms ilog2_floor_log [of "nat n"] show ?thesis
    by simp
qed

lemma levels2D_pos:
  "0 < a \<Longrightarrow> 0 < b \<Longrightarrow> a \<le> GLsizei_max \<Longrightarrow> b \<le> GLsizei_max \<Longrightarrow>
   width this = Num a \<Longrightarrow> height this = Num b \<Longrightarrow>
   levels2D this = Finite (\<lfloor>log 2 (real_of_int (max a b))\<rfloor> + 1)"
  by (simp add: levels2D_def floor_log2_pos del: plus1.simps floor_log2.simps)

lemma levels3D_pos:
  "0 < a \<Longrightarrow> 0 < b \<Longrightarrow> a \<le> GLsizei_max \<Longrightarrow> b \<le> GLsizei_max \<Longrightarrow> c \<le> GLsizei_max \<Longrightarrow>
   width this = Num a \<Longrightarrow> height this = Num b \<Longrightarrow> depth this = Num c \<Longrightarrow>
   levels3D this = Finite (\<lfloor>log 2 (real_of_int (max (max a b) c))\<rfloor> + 1)"
  by (simp add: levels3D_def floor_log2_pos del: plus1.simps floor_log2.simps)

section \<open>What each operation does to the texture and to the context\<close>

lemma js_plus_exact: "exact a \<Longrightarrow> exact b \<Longrightarrow> exact (a + b) \<Longrightarrow> js_plus a b = Finite (a + b)"
  by (simp add: js_plus_def)

lemma issue_gl [simp]:
  "calls (gl (issue c w)) = calls (gl w) @ [c]"
  "fresh (gl (issue c w)) = fresh (gl w)"
  "enums (gl (issue c w)) = enums (gl w)"
  "appState (issue c w) = appState w"
  by (simp_all add: issue_def)

lemma create_gl [simp]:
  "fst (create c w) = Some (fresh (gl w))"
  "calls (gl (snd (create c w))) = calls (gl w) @ [c]"
  "fresh (gl (snd (create c w))) = Suc (fresh (gl w))"
  "enums (gl (snd (create c w))) = enums (gl w)"
  "appState (snd (create c w)) = appState w"
  by (simp_all add: create_def)

lemma bind_simps [simp]:
  "fst (bind unit s) = fst s"
  "calls (gl (snd (bind unit s))) =
     calls (gl (snd s)) @ [activeTexture (js_plus (TEXTURE0 (enums (gl (snd s)))) unit),
                           bindTexture (binding (fst s)) (texture (fst s)),
                           bindSampler unit (sampler (fst s))]"
  "fresh (gl (snd (bind unit s))) = fresh (gl (snd s))"
  "enums (gl (snd (bind unit s))) = enums (gl (snd s))"
  "appState (snd (bind unit s)) = appState (snd s)"
  by (simp_all add: bind_def Let_def)

lemma reallocate_fst:
  "fst (reallocate w h d s) =
     (fst s)\<lparr>texture := Some (fresh (gl (snd s))), width := w, height := h, depth := d\<rparr>"
  by (simp add: reallocate_def Let_def)

lemma reallocate_calls:
  "calls (gl (snd (reallocate w h d s))) =
     calls (gl (snd s)) @
       [deleteTexture (texture (fst s)), createTexture,
        activeTexture (js_plus (TEXTURE0 (enums (gl (snd s)))) 0),
        bindTexture (binding (fst s)) (Some (fresh (gl (snd s)))),
        bindSampler 0 (sampler (fst s)),
        pixelStorei (UNPACK_FLIP_Y_WEBGL (enums (gl (snd s)))) (flipY (fst s))] @
       level_clamps (fst s) (enums (gl (snd s))) @
       [storage_call ((fst s)\<lparr>width := w, height := h, depth := d\<rparr>)]"
  by (simp add: reallocate_def Let_def level_clamps_def storage_call_def levels3D_def levels2D_def)

lemma reallocate_rest:
  "fresh (gl (snd (reallocate w h d s))) = Suc (fresh (gl (snd s)))"
  "enums (gl (snd (reallocate w h d s))) = enums (gl (snd s))"
  "appState (snd (reallocate w h d s)) = appState (snd s)"
  by (simp_all add: reallocate_def Let_def)

lemma reallocate_last:
  "last (calls (gl (snd (reallocate w h d s)))) = storage_call ((fst s)\<lparr>width := w, height := h, depth := d\<rparr>)"
  by (simp add: reallocate_calls)

lemma resize_same:
  "w = width (fst s) \<Longrightarrow> h = height (fst s) \<Longrightarrow> js_or d (Num 0) = depth (fst s) \<Longrightarrow> resize w h d s = s"
  by (simp add: resize_def Let_def)

lemma resize_other:
  "(w, h, js_or d (Num 0)) \<noteq> (width (fst s), height (fst s), depth (fst s)) \<Longrightarrow>
   resize w h d s = reallocate w h (js_or d (Num 0)) s"
  by (auto simp add: resize_def Let_def)

lemma resize_cases:
  "resize w h d s = s \<or> resize w h d s = reallocate w h (js_or d (Num 0)) s"
  by (simp add: resize_def Let_def)

lemma resize_rest:
  "enums (gl (snd (resize w h d s))) = enums (gl (snd s))"
  "appState (snd (resize w h d s)) = appState (snd s)"
  using resize_cases [of w h d s] by (auto simp: reallocate_rest)

lemma data_simps [simp]:
  "fst (data d s) = fst s"
  "fresh (gl (snd (data d s))) = fresh (gl (snd s))"
  "enums (gl (snd (data d s))) = enums (gl (snd s))"
  "appState (snd (data d s)) = appState (snd s)"
  by (simp_all add: data_def Let_def split: image.split)

lemma data_NoImage [simp]: "data NoImage s = s"
  by (simp add: data_def)

lemma delete_None: "texture (fst s) = None \<Longrightarrow> delete s = s"
  by (simp add: delete_def Let_def)

lemma delete_Some:
  "texture (fst s) = Some n \<Longrightarrow>
   delete s = ((fst s)\<lparr>texture := None, sampler := None\<rparr>,
               issue (deleteSampler (sampler (fst s))) (issue (deleteTexture (texture (fst s))) (snd s)))"
  by (simp add: delete_def Let_def)

lemma texture_delete: "texture (fst (delete s)) = None"
  by (cases "texture (fst s)") (simp_all add: delete_None delete_Some)

lemma dims_delete:
  "width (fst (delete s)) = width (fst s)"
  "height (fst (delete s)) = height (fst s)"
  "depth (fst (delete s)) = depth (fst s)"
  by (cases "texture (fst s)"; simp add: delete_None delete_Some)+

section \<open>The storage allocations among the calls\<close>

lemma storage_alloc_level_clamps: "filter storage_alloc (level_clamps this e) = []"
  by (simp add: level_clamps_def)

lemma storage_alloc_storage_call: "storage_alloc (storage_call this)"
  by (simp add: storage_call_def)

lemma reallocate_storage:
  "filter storage_alloc (calls (gl (snd (reallocate w h d s)))) =
     filter storage_alloc (calls (gl (snd s))) @ [storage_call ((fst s)\<lparr>width := w, height := h, depth := d\<rparr>)]"
  by (simp add: reallocate_calls storage_alloc_level_clamps storage_alloc_storage_call)

lemma storage_call_dims:
  "\<exists>levels. storage_call this =
     (if is3D this
      then texStorage3D (binding this) levels (internalFormat this) (width this) (height this) (depth this)
      else texStorage2D (binding this) levels (internalFormat this) (width this) (height this))"
  by (cases "is3D this") (simp_all add: storage_call_def)

section \<open>What the constructor does\<close>

lemma init_sampler_simps:
  "fst (init_sampler opts w) = Some (fresh (gl w))"
  "fresh (gl (snd (init_sampler opts w))) = Suc (fresh (gl w))"
  "enums (gl (snd (init_sampler opts w))) = enums (gl w)"
  "appState (snd (init_sampler opts w)) = appState w"
  by (simp_all add: init_sampler_def Let_def)

lemma init_sampler_calls:
  "\<exists>ps. calls (gl (snd (init_sampler opts w))) = calls (gl w) @ createSampler # ps \<and>
        list_all sampler_parameter ps"
  by (simp add: init_sampler_def Let_def)

lemma init_sampler_storage:
  "filter storage_alloc (calls (gl (snd (init_sampler opts w)))) = filter storage_alloc (calls (gl w))"
  by (simp add: init_sampler_def Let_def)

lemma init_fields_simps:
  "texture (init_fields e b i3 opts ifmt smp) = None"
  "sampler (init_fields e b i3 opts ifmt smp) = smp"
  "width (init_fields e b i3 opts ifmt smp) = Num (- 1)"
  "height (init_fields e b i3 opts ifmt smp) = Num (- 1)"
  "depth (init_fields e b i3 opts ifmt smp) = Num (- 1)"
  "is3D (init_fields e b i3 opts ifmt smp) = i3"
  "binding (init_fields e b i3 opts ifmt smp) = b"
  "internalFormat (init_fields e b i3 opts ifmt smp) = ifmt"
  "generateMipmaps (init_fields e b i3 opts ifmt smp) =
     (opt_generateMipmaps opts \<noteq> Bool False \<and>
      (default_to (opt_minFilter opts) (Num (LINEAR_MIPMAP_NEAREST e)) = Num (LINEAR_MIPMAP_NEAREST e) \<or>
       default_to (opt_minFilter opts) (Num (LINEAR_MIPMAP_NEAREST e)) = Num (LINEAR_MIPMAP_LINEAR e)))"
  by (simp_all add: init_fields_def)

text \<open>What a construction that does not throw returns.\<close>

lemma Texture_new_Inr:
  assumes "Texture_new tfd w0 b img wd ht dp i3 opts = Inr s"
  shows "\<exists>wd1 ht1 ifmt.
           s = bind 0 (data img (resize wd1 ht1 dp
                 (init_fields (enums (gl w0)) b i3 (given_options opts) ifmt
                    (fst (init_sampler (given_options opts) w0)),
                  snd (init_sampler (given_options opts) w0))))"
  using assms by (auto simp: Texture_new_def Let_def split: sum.splits if_splits)

lemma Texture_new_NoImage:
  assumes "truthy wd" and "truthy ht"
    and "opt_internalFormat (given_options opts) \<noteq> Undefined \<or>
         tfd (default_to (opt_type (given_options opts)) (Num (UNSIGNED_BYTE (enums (gl w0))))) \<noteq> None"
  shows "\<exists>ifmt. Texture_new tfd w0 b NoImage wd ht dp i3 opts =
           Inr (bind 0 (resize wd ht dp
                  (init_fields (enums (gl w0)) b i3 (given_options opts) ifmt
                     (fst (init_sampler (given_options opts) w0)),
                   snd (init_sampler (given_options opts) w0))))"
  using assms by (auto simp: Texture_new_def Let_def format_default_def)

lemma generateMipmaps_resize: "generateMipmaps (fst (resize w h d s)) = generateMipmaps (fst s)"
  using resize_cases [of w h d s] by (auto simp: reallocate_fst)

lemma generateMipmaps_Texture_new:
  assumes "Texture_new tfd w0 b img wd ht dp i3 opts = Inr s"
  shows "generateMipmaps (fst s) =
           (opt_generateMipmaps (given_options opts) \<noteq> Bool False \<and>
            (default_to (opt_minFilter (given_options opts)) (Num (LINEAR_MIPMAP_NEAREST (enums (gl w0)))) =
               Num (LINEAR_MIPMAP_NEAREST (enums (gl w0))) \<or>
             default_to (opt_minFilter (given_options opts)) (Num (LINEAR_MIPMAP_NEAREST (enums (gl w0)))) =
               Num (LINEAR_MIPMAP_LINEAR (enums (gl w0)))))"
proof -
  from Texture_new_Inr [OF assms] obtain wd1 ht1 ifmt where
    "s = bind 0 (data img (resize wd1 ht1 dp
                 (init_fields (enums (gl w0)) b i3 (given_options opts) ifmt
                    (fst (init_sampler (given_options opts) w0)),
                  snd (init_sampler (given_options opts) w0))))"
    by blast
  then show ?thesis
    by (simp add: generateMipmaps_resize init_fields_simps)
qed

section \<open>Handles come from the context\<close>

lemma owned_same_fresh: "fresh (gl w') = fresh (gl w) \<Longrightarrow> owned h w' = owned h w"
  by (simp add: owned_def split: option.splits)

lemma owned_later: "owned h w \<Longrightarrow> fresh (gl w) \<le> fresh (gl w') \<Longrightarrow> owned h w'"
  by (auto simp: owned_def split: option.splits)

lemma handles_owned_reallocate: "handles_owned s \<Longrightarrow> handles_owned (reallocate w h d s)"
proof -
  assume "handles_owned s"
  then have "owned (sampler (fst s)) (snd (reallocate w h d s))"
    by (auto simp: handles_owned_def reallocate_rest intro: owned_later)
  moreover have "owned (Some (fresh (gl (snd s)))) (snd (reallocate w h d s))"
    by (simp add: owned_def reallocate_rest)
  ultimately show ?thesis
    by (simp add: handles_owned_def reallocate_fst)
qed

lemma handles_owned_resize: "handles_owned s \<Longrightarrow> handles_owned (resize w h d s)"
  using resize_cases [of w h d s] by (auto simp: handles_owned_reallocate)

lemma handles_owned_data: "handles_owned s \<Longrightarrow> handles_owned (data d s)"
  by (simp add: handles_owned_def owned_same_fresh [of "snd (data d s)" "snd s"])

lemma handles_owned_bind: "handles_owned s \<Longrightarrow> handles_owned (bind unit s)"
  by (simp add: handles_owned_def owned_same_fresh [of "snd (bind unit s)" "snd s"])

lemma handles_owned_delete: "handles_owned s \<Longrightarrow> handles_owned (delete s)"
  by (cases "texture (fst s)") (simp_all add: delete_None delete_Some handles_owned_def owned_def)

lemma handles_owned_run: "handles_owned s \<Longrightarrow> handles_owned (run ops s)"
proof (induction ops arbitrary: s)
  case Nil
  then show ?case by simp
next
  case (Cons x xs)
  have "handles_owned (apply_operation x s)"
    using Cons.prems by (cases x) (simp_all add: handles_owned_resize handles_owned_data handles_owned_bind)
  then show ?case by (simp add: Cons.IH)
qed

lemma handles_owned_Texture_new:
  assumes "Texture_new tfd w0 b img wd ht dp i3 opts = Inr s"
  shows "handles_owned s"
proof -
  from Texture_new_Inr [OF assms] obtain wd1 ht1 ifmt where
    s: "s = bind 0 (data img (resize wd1 ht1 dp
                 (init_fields (enums (gl w0)) b i3 (given_options opts) ifmt
                    (fst (init_sampler (given_options opts) w0)),
                  snd (init_sampler (given_options opts) w0))))"
    by blast
  have "handles_owned (init_fields (enums (gl w0)) b i3 (given_options opts) ifmt
                    (fst (init_sampler (given_options opts) w0)),
                  snd (init_sampler (given_options opts) w0))"
    by (simp add: handles_owned_def owned_def init_fields_simps init_sampler_simps)
  then show ?thesis
    unfolding s by (intro handles_owned_bind handles_owned_data handles_owned_resize)
qed

section \<open>The sampler calls among the calls\<close>

lemma sampler_setup_level_clamps: "filter sampler_setup (level_clamps this e) = []"
  by (simp add: level_clamps_def)

lemma sampler_setup_storage_call: "\<not> sampler_setup (storage_call this)"
  by (simp add: storage_call_def)

lemma sampler_reallocate:
  "sampler (fst (reallocate w h d s)) = sampler (fst s)"
  "filter sampler_setup (calls (gl (snd (reallocate w h d s)))) = filter sampler_setup (calls (gl (snd s)))"
  by (simp_all add: reallocate_fst reallocate_calls sampler_setup_level_clamps sampler_setup_storage_call)

lemma sampler_resize:
  "sampler (fst (resize w h d s)) = sampler (fst s)"
  "filter sampler_setup (calls (gl (snd (resize w h d s)))) = filter sampler_setup (calls (gl (snd s)))"
  using resize_cases [of w h d s] by (auto simp: sampler_reallocate)

lemma sampler_data:
  "filter sampler_setup (calls (gl (snd (data d s)))) = filter sampler_setup (calls (gl (snd s)))"
  by (simp add: data_def Let_def split: image.split)

lemma sampler_run:
  "sampler (fst (run ops s)) = sampler (fst s) \<and>
   filter sampler_setup (calls (gl (snd (run ops s)))) = filter sampler_setup (calls (gl (snd s)))"
proof (induction ops arbitrary: s)
  case Nil
  show ?case by simp
next
  case (Cons x xs)
  have "sampler (fst (apply_operation x s)) = sampler (fst s) \<and>
        filter sampler_setup (calls (gl (snd (apply_operation x s)))) =
          filter sampler_setup (calls (gl (snd s)))"
    by (cases x) (simp_all add: sampler_resize sampler_data)
  with Cons.IH [of "apply_operation x s"] show ?case by simp
qed

lemma sampler_parameter_setup: "list_all sampler_parameter ps \<Longrightarrow> filter sampler_setup ps = ps"
proof (induction ps)
  case Nil
  show ?case by simp
next
  case (Cons c cs)
  then show ?case by (cases c) simp_all
qed

section \<open>The concrete textures\<close>

text \<open>The blank texture, field by field.\<close>

lemma blank_fields:
  "texture (fst (blank st)) = None"
  "width (fst (blank st)) = Num (- 1)"
  "height (fst (blank st)) = Num (- 1)"
  "depth (fst (blank st)) = Num (- 1)"
  "is3D (fst (blank st)) = False"
  "generateMipmaps (fst (blank st)) = True"
  "binding (fst (blank st)) = TEXTURE_2D"
  "internalFormat (fst (blank st)) = Num 32856"
  "sampler (fst (blank st)) = Some 0"
  "baseLevel (fst (blank st)) = Null"
  "maxLevel (fst (blank st)) = Null"
  by (simp_all add: blank_def init_fields_def DUMMY_OBJECT_def default_to_def webgl2_enums_def)

lemma blank_world:
  "fresh (gl (snd (blank st))) = 1"
  "appState (snd (blank st)) = st"
  "enums (gl (snd (blank st))) = webgl2_enums"
  by (simp_all add: blank_def init_sampler_def Let_def new_world_def DUMMY_OBJECT_def default_to_def)

lemma blank3D_fields:
  "width (fst (blank3D st)) = Num (- 1)"
  "height (fst (blank3D st)) = Num (- 1)"
  "depth (fst (blank3D st)) = Num (- 1)"
  "is3D (fst (blank3D st)) = True"
  "generateMipmaps (fst (blank3D st)) = True"
  "binding (fst (blank3D st)) = TEXTURE_3D"
  "internalFormat (fst (blank3D st)) = Num 32856"
  by (simp_all add: blank3D_def init_fields_def DUMMY_OBJECT_def default_to_def webgl2_enums_def)

lemma resize_blank:
  "resize (Num a) (Num b) Undefined (blank st) = reallocate (Num a) (Num b) (Num 0) (blank st)" if "0 < a"
  using that by (simp add: resize_def Let_def blank_fields js_or_def)

lemma handles_owned_blank: "handles_owned (blank st)"
  by (simp add: handles_owned_def owned_def blank_fields blank_world)

lemma Texture_new_made:
  assumes "opt_internalFormat opts = Undefined" and "opt_type opts = Undefined"
    and "opt_format opts = Undefined"
  shows "Texture_new small_table (new_world st) TEXTURE_2D NoImage (Num 4) (Num 2) Undefined False
           (Some opts) = Inr (made opts st)"
  using assms
  by (simp add: Texture_new_def Let_def format_default_def given_options_def default_to_def
      new_world_def webgl2_enums_def small_table_def made_def)

lemma Texture_new_made_default:
  "Texture_new small_table (new_world st) TEXTURE_2D NoImage (Num 4) (Num 2) Undefined False None =
     Inr (made DUMMY_OBJECT st)"
  by (simp add: Texture_new_def Let_def format_default_def given_options_def default_to_def
      new_world_def webgl2_enums_def small_table_def made_def DUMMY_OBJECT_def)

section \<open>Resizing to the allocated dimensions\<close>

text \<open>
  C1. A \<open>resize\<close> whose triple, with the depth defaulted to 0, equals the recorded one
  returns the texture and the context exactly as they were: the same handle, the same
  width, height and depth, and not one more call on the context. In particular the
  second of two equal \<open>resize\<close> calls changes nothing.
\<close>

theorem resize_same_triple_is_noop:
  "(width (fst s) = w \<and> height (fst s) = h \<and> depth (fst s) = js_or d (Num 0) \<longrightarrow> resize w h d s = s) \<and>
   resize w h d (resize w h d s) = resize w h d s"
proof
  show "width (fst s) = w \<and> height (fst s) = h \<and> depth (fst s) = js_or d (Num 0) \<longrightarrow> resize w h d s = s"
    by (simp add: resize_same)
next
  show "resize w h d (resize w h d s) = resize w h d s"
  proof (cases "(w, h, js_or d (Num 0)) = (width (fst s), height (fst s), depth (fst s))")
    case True
    then have "resize w h d s = s" by (simp add: resize_same)
    then show ?thesis by simp
  next
    case False
    then have "resize w h d s = reallocate w h (js_or d (Num 0)) s" by (rule resize_other)
    then show ?thesis by (simp add: resize_same reallocate_fst)
  qed
qed

theorem resize_same_triple_is_noop_witness:
  "width (fst (resize (Num 256) (Num 256) Undefined (blank ()))) = Num 256 \<and>
   height (fst (resize (Num 256) (Num 256) Undefined (blank ()))) = Num 256 \<and>
   depth (fst (resize (Num 256) (Num 256) Undefined (blank ()))) = js_or Undefined (Num 0) \<and>
   resize (Num 256) (Num 256) Undefined (resize (Num 256) (Num 256) Undefined (blank ())) =
     resize (Num 256) (Num 256) Undefined (blank ())"
  using resize_same_triple_is_noop [of "resize (Num 256) (Num 256) Undefined (blank ())" "Num 256" "Num 256" Undefined]
  by (simp add: resize_other reallocate_fst blank_fields)

section \<open>The number of mipmap levels\<close>

text \<open>
  C2. A \<open>resize\<close> that passes the guard, to a positive width and height that are
  dimensions of storage (each a \<open>GLsizei\<close>, as is the depth of a 3D-shaped texture),
  ends with its one storage allocation. The level count it passes is 1 when mipmaps
  are off; when they are on it is \<open>floor(log2(max(width, height, depth))) + 1\<close> for a
  3D-shaped texture and \<open>floor(log2(max(width, height))) + 1\<close> for a 2D-shaped one,
  the logarithm being the real one.
\<close>

theorem resize_level_count:
  assumes "0 < a" and "0 < b" and "a \<le> GLsizei_max" and "b \<le> GLsizei_max"
    and "js_or d (Num 0) = Num c" and "is3D (fst s) \<longrightarrow> c \<le> GLsizei_max"
    and "(Num a, Num b, Num c) \<noteq> (width (fst s), height (fst s), depth (fst s))"
  shows "last (calls (gl (snd (resize (Num a) (Num b) d s)))) =
           (if is3D (fst s)
            then texStorage3D (binding (fst s))
                   (Finite (if generateMipmaps (fst s)
                            then \<lfloor>log 2 (real_of_int (max (max a b) c))\<rfloor> + 1 else 1))
                   (internalFormat (fst s)) (Num a) (Num b) (Num c)
            else texStorage2D (binding (fst s))
                   (Finite (if generateMipmaps (fst s)
                            then \<lfloor>log 2 (real_of_int (max a b))\<rfloor> + 1 else 1))
                   (internalFormat (fst s)) (Num a) (Num b)) \<and>
         filter storage_alloc (calls (gl (snd (resize (Num a) (Num b) d s)))) =
           filter storage_alloc (calls (gl (snd s))) @
             [last (calls (gl (snd (resize (Num a) (Num b) d s))))]"
proof -
  let ?t = "(fst s)\<lparr>width := Num a, height := Num b, depth := Num c\<rparr>"
  have r: "resize (Num a) (Num b) d s = reallocate (Num a) (Num b) (Num c) s"
    using assms(5,7) resize_other [of "Num a" "Num b" d s] by simp
  have l2: "levels2D ?t = Finite (\<lfloor>log 2 (real_of_int (max a b))\<rfloor> + 1)"
    using assms(1-4) by (intro levels2D_pos) simp_all
  have l3: "levels3D ?t = Finite (\<lfloor>log 2 (real_of_int (max (max a b) c))\<rfloor> + 1)"
    if "is3D (fst s)"
    using assms(1-4,6) that by (intro levels3D_pos) simp_all
  have "storage_call ?t =
           (if is3D (fst s)
            then texStorage3D (binding (fst s))
                   (Finite (if generateMipmaps (fst s)
                            then \<lfloor>log 2 (real_of_int (max (max a b) c))\<rfloor> + 1 else 1))
                   (internalFormat (fst s)) (Num a) (Num b) (Num c)
            else texStorage2D (binding (fst s))
                   (Finite (if generateMipmaps (fst s)
                            then \<lfloor>log 2 (real_of_int (max a b))\<rfloor> + 1 else 1))
                   (internalFormat (fst s)) (Num a) (Num b))"
  proof (cases "is3D (fst s)")
    case True
    then show ?thesis by (simp add: storage_call_def l3)
  next
    case False
    then show ?thesis by (simp add: storage_call_def l2)
  qed
  then show ?thesis
    by (simp only: r reallocate_last reallocate_storage simp_thms)
qed

theorem resize_level_count_witness:
  "(0::int) < 100 \<and> (0::int) < 50 \<and> 100 \<le> GLsizei_max \<and> 50 \<le> GLsizei_max \<and>
   js_or Undefined (Num 0) = Num 0 \<and> \<not> is3D (fst (blank ())) \<and>
   (Num 100, Num 50, Num 0) \<noteq>
     (width (fst (blank ())), height (fst (blank ())), depth (fst (blank ()))) \<and>
   last (calls (gl (snd (resize (Num 100) (Num 50) Undefined (blank ()))))) =
     texStorage2D TEXTURE_2D (Finite (\<lfloor>log 2 (real_of_int (max 100 50))\<rfloor> + 1)) (Num 32856)
       (Num 100) (Num 50) \<and>
   last (calls (gl (snd (resize (Num 100) (Num 50) Undefined (blank ()))))) =
     texStorage2D TEXTURE_2D (Finite 7) (Num 32856) (Num 100) (Num 50) \<and>
   (0::int) < 4 \<and> (0::int) < 2 \<and> 4 \<le> GLsizei_max \<and> 2 \<le> GLsizei_max \<and>
   js_or (Num 64) (Num 0) = Num 64 \<and> is3D (fst (blank3D ())) \<and> 64 \<le> GLsizei_max \<and>
   (Num 4, Num 2, Num 64) \<noteq>
     (width (fst (blank3D ())), height (fst (blank3D ())), depth (fst (blank3D ()))) \<and>
   last (calls (gl (snd (resize (Num 4) (Num 2) (Num 64) (blank3D ()))))) =
     texStorage3D TEXTURE_3D (Finite (\<lfloor>log 2 (real_of_int (max (max 4 2) 64))\<rfloor> + 1)) (Num 32856)
       (Num 4) (Num 2) (Num 64) \<and>
   last (calls (gl (snd (resize (Num 4) (Num 2) (Num 64) (blank3D ()))))) =
     texStorage3D TEXTURE_3D (Finite 7) (Num 32856) (Num 4) (Num 2) (Num 64)"
proof -
  have d: "js_or Undefined (Num 0) = Num 0" "js_or (Num 64) (Num 0) = Num 64"
    by (simp_all add: js_or_def)
  have size: "(100::int) \<le> GLsizei_max" "(50::int) \<le> GLsizei_max" "(4::int) \<le> GLsizei_max"
    "(2::int) \<le> GLsizei_max" "(64::int) \<le> GLsizei_max"
    by (simp_all add: GLsizei_max_def)
  have shape: "\<not> is3D (fst (blank ()))" "is3D (fst (blank3D ()))"
    by (simp_all add: blank_fields blank3D_fields)
  have other: "(Num 100, Num 50, Num 0) \<noteq>
     (width (fst (blank ())), height (fst (blank ())), depth (fst (blank ())))"
    by (simp add: blank_fields)
  have other3: "(Num 4, Num 2, Num 64) \<noteq>
     (width (fst (blank3D ())), height (fst (blank3D ())), depth (fst (blank3D ())))"
    by (simp add: blank3D_fields)
  have run: "last (calls (gl (snd (resize (Num 100) (Num 50) Undefined (blank ()))))) =
     texStorage2D TEXTURE_2D (Finite 7) (Num 32856) (Num 100) (Num 50)"
    by (simp add: resize_blank reallocate_last storage_call_def blank_fields levels2D_def
        ilog2.simps GLsizei_max_def exact_def)
  have run3: "last (calls (gl (snd (resize (Num 4) (Num 2) (Num 64) (blank3D ()))))) =
     texStorage3D TEXTURE_3D (Finite 7) (Num 32856) (Num 4) (Num 2) (Num 64)"
    using other3
    by (simp add: resize_other d reallocate_last storage_call_def blank3D_fields levels3D_def
        ilog2.simps GLsizei_max_def exact_def)
  have "is3D (fst (blank ())) \<longrightarrow> 0 \<le> GLsizei_max"
    using shape(1) by simp
  from resize_level_count [of 100 50 Undefined 0 "blank ()", OF _ _ size(1,2) d(1) this other]
  have by_thm: "last (calls (gl (snd (resize (Num 100) (Num 50) Undefined (blank ()))))) =
     texStorage2D TEXTURE_2D (Finite (\<lfloor>log 2 (real_of_int (max 100 50))\<rfloor> + 1)) (Num 32856)
       (Num 100) (Num 50)"
    by (simp add: blank_fields)
  have "is3D (fst (blank3D ())) \<longrightarrow> 64 \<le> GLsizei_max"
    using size(5) by simp
  from resize_level_count [of 4 2 "Num 64" 64 "blank3D ()", OF _ _ size(3,4) d(2) this other3]
  have by_thm3: "last (calls (gl (snd (resize (Num 4) (Num 2) (Num 64) (blank3D ()))))) =
     texStorage3D TEXTURE_3D (Finite (\<lfloor>log 2 (real_of_int (max (max 4 2) 64))\<rfloor> + 1)) (Num 32856)
       (Num 4) (Num 2) (Num 64)"
    by (simp add: blank3D_fields)
  from d size shape other other3 run run3 by_thm by_thm3 show ?thesis
    by (simp only: simp_thms) simp
qed

section \<open>Binding and the tracked state\<close>

text \<open>
  C3, as the spec states it: after \<open>bind(unit)\<close>, and after the \<open>bind(0)\<close> inside
  \<open>resize\<close>, the tracked state's slot for the unit refers to this texture. It does
  not: with nothing recorded as bound before, nothing is recorded after \<open>resize\<close> on
  unit 0, nor after \<open>bind(3)\<close> on unit 3.
\<close>

theorem bind_tracked_state_counterexample:
  "\<not> bound_at (appState (snd (resize (Num 4) (Num 4) Undefined (blank nothing_bound)))) 0
         (fst (resize (Num 4) (Num 4) Undefined (blank nothing_bound))) \<and>
   \<not> bound_at (appState (snd (bind 3 (resize (Num 4) (Num 4) Undefined (blank nothing_bound))))) 3
         (fst (bind 3 (resize (Num 4) (Num 4) Undefined (blank nothing_bound))))"
  by (simp add: resize_rest blank_world bound_at_def nothing_bound_def)

text \<open>
  C3, amended. \<open>bind(unit)\<close> issues three calls and returns the texture as it is: it
  activates a unit, binds the texture to its target and binds the sampler to \<open>unit\<close>.
  The unit it activates is \<open>TEXTURE0 + unit\<close>, the integer sum wherever the double sum
  of the code is exact. Neither \<open>bind\<close> nor \<open>resize\<close> changes the tracked state,
  whatever it holds.
\<close>

theorem bind_leaves_tracked_state:
  "(\<exists>u. calls (gl (snd (bind unit s))) =
          calls (gl (snd s)) @ [activeTexture u,
                                bindTexture (binding (fst s)) (texture (fst s)),
                                bindSampler unit (sampler (fst s))]) \<and>
   (exact (TEXTURE0 (enums (gl (snd s)))) \<and> exact unit \<and>
    exact (TEXTURE0 (enums (gl (snd s))) + unit) \<longrightarrow>
      calls (gl (snd (bind unit s))) =
        calls (gl (snd s)) @ [activeTexture (Finite (TEXTURE0 (enums (gl (snd s))) + unit)),
                              bindTexture (binding (fst s)) (texture (fst s)),
                              bindSampler unit (sampler (fst s))]) \<and>
   fst (bind unit s) = fst s \<and>
   appState (snd (bind unit s)) = appState (snd s) \<and>
   appState (snd (resize w h d s)) = appState (snd s)"
  by (simp add: resize_rest js_plus_exact)

theorem bind_leaves_tracked_state_witness:
  "exact (TEXTURE0 (enums (gl (snd (blank nothing_bound))))) \<and> exact 3 \<and>
   exact (TEXTURE0 (enums (gl (snd (blank nothing_bound)))) + 3) \<and>
   calls (gl (snd (bind 3 (blank nothing_bound)))) =
     calls (gl (snd (blank nothing_bound))) @
       [activeTexture (Finite 33987), bindTexture TEXTURE_2D None, bindSampler 3 (Some 0)] \<and>
   fst (bind 3 (blank nothing_bound)) = fst (blank nothing_bound) \<and>
   appState (snd (bind 3 (blank nothing_bound))) = nothing_bound \<and>
   appState (snd (resize (Num 4) (Num 4) Undefined (blank nothing_bound))) = nothing_bound"
proof -
  have e: "exact (TEXTURE0 (enums (gl (snd (blank nothing_bound)))))" "exact 3"
    "exact (TEXTURE0 (enums (gl (snd (blank nothing_bound)))) + 3)"
    by (simp_all add: blank_world webgl2_enums_def exact_def)
  from bind_leaves_tracked_state [of 3 "blank nothing_bound" "Num 4" "Num 4" Undefined] e
  show ?thesis
    by (simp add: blank_world blank_fields webgl2_enums_def)
qed

section \<open>Constructing without an image\<close>

text \<open>
  C4, as the spec states it: a construction without an image raises no error, also
  when the width or the height is omitted. It does raise: with the image and the width
  omitted, line 46 reads \<open>width\<close> of nothing; with the width given and the image and the
  height omitted, line 47 reads \<open>height\<close> of nothing.
\<close>

theorem construct_without_image_counterexample:
  "Texture_new small_table (new_world ()) TEXTURE_2D NoImage Undefined Undefined Undefined False None =
     Inl TypeError \<and>
   Texture_new small_table (new_world ()) TEXTURE_2D NoImage (Num 4) Undefined Undefined False None =
     Inl TypeError"
  by (simp add: Texture_new_def)

text \<open>
  C4, amended. A construction without an image, with a truthy width and a truthy
  height (numbers other than 0) and with an internal format that is given or a type that
  the defaults table knows, raises no error: it returns a texture that records the
  given width and height and the depth defaulted to 0. Unless that triple is the
  (-1, -1, -1) that the fields start from, the texture holds a handle and the
  construction has issued one storage allocation, of the texture's shape and with these
  dimensions; at (-1, -1, -1) the guard of \<open>resize\<close> stops the allocation, and the
  texture holds no handle.
\<close>

theorem construct_without_image:
  assumes "truthy wd" and "truthy ht"
    and "opt_internalFormat (given_options opts) \<noteq> Undefined \<or>
         tfd (default_to (opt_type (given_options opts)) (Num (UNSIGNED_BYTE (enums (gl w0))))) \<noteq> None"
  shows "\<exists>s. Texture_new tfd w0 b NoImage wd ht dp i3 opts = Inr s \<and>
             width (fst s) = wd \<and> height (fst s) = ht \<and> depth (fst s) = js_or dp (Num 0) \<and>
             binding (fst s) = b \<and> is3D (fst s) = i3 \<and>
             ((wd, ht, js_or dp (Num 0)) \<noteq> (Num (- 1), Num (- 1), Num (- 1)) \<longrightarrow>
                texture (fst s) = Some (Suc (fresh (gl w0))) \<and>
                (\<exists>levels. filter storage_alloc (calls (gl (snd s))) =
                   filter storage_alloc (calls (gl w0)) @
                     [if i3
                      then texStorage3D b levels (internalFormat (fst s)) wd ht (js_or dp (Num 0))
                      else texStorage2D b levels (internalFormat (fst s)) wd ht])) \<and>
             ((wd, ht, js_or dp (Num 0)) = (Num (- 1), Num (- 1), Num (- 1)) \<longrightarrow>
                texture (fst s) = None \<and>
                filter storage_alloc (calls (gl (snd s))) = filter storage_alloc (calls (gl w0)))"
proof -
  have "\<exists>ifmt. Texture_new tfd w0 b NoImage wd ht dp i3 opts =
           Inr (bind 0 (resize wd ht dp
                  (init_fields (enums (gl w0)) b i3 (given_options opts) ifmt
                     (fst (init_sampler (given_options opts) w0)),
                   snd (init_sampler (given_options opts) w0))))"
    using assms(1,2,3) by (rule Texture_new_NoImage)
  then obtain ifmt where
    new: "Texture_new tfd w0 b NoImage wd ht dp i3 opts =
           Inr (bind 0 (resize wd ht dp
                  (init_fields (enums (gl w0)) b i3 (given_options opts) ifmt
                     (fst (init_sampler (given_options opts) w0)),
                   snd (init_sampler (given_options opts) w0))))"
    by blast
  let ?s0 = "(init_fields (enums (gl w0)) b i3 (given_options opts) ifmt
                (fst (init_sampler (given_options opts) w0)),
              snd (init_sampler (given_options opts) w0))"
  let ?t = "(fst ?s0)\<lparr>width := wd, height := ht, depth := js_or dp (Num 0)\<rparr>"
  show ?thesis
  proof (cases "(wd, ht, js_or dp (Num 0)) = (Num (- 1), Num (- 1), Num (- 1))")
    case True
    then have r: "resize wd ht dp ?s0 = ?s0"
      by (intro resize_same) (simp_all add: init_fields_simps)
    show ?thesis
      unfolding new r using True
      by (simp add: init_fields_simps init_sampler_storage)
  next
    case False
    then have r: "resize wd ht dp ?s0 = reallocate wd ht (js_or dp (Num 0)) ?s0"
      by (intro resize_other) (simp add: init_fields_simps)
    obtain levels where
      "storage_call ?t =
         (if is3D ?t
          then texStorage3D (binding ?t) levels (internalFormat ?t) (width ?t) (height ?t) (depth ?t)
          else texStorage2D (binding ?t) levels (internalFormat ?t) (width ?t) (height ?t))"
      using storage_call_dims [of ?t] by blast
    then have call: "storage_call ?t =
         (if i3 then texStorage3D b levels ifmt wd ht (js_or dp (Num 0))
          else texStorage2D b levels ifmt wd ht)"
      by (simp add: init_fields_simps)
    have "filter storage_alloc (calls (gl (snd (bind 0 (reallocate wd ht (js_or dp (Num 0)) ?s0))))) =
          filter storage_alloc (calls (gl w0)) @
            [if i3 then texStorage3D b levels ifmt wd ht (js_or dp (Num 0))
             else texStorage2D b levels ifmt wd ht]"
      using call by (simp add: reallocate_storage init_sampler_storage)
    then show ?thesis
      unfolding new r using False
      by (auto simp add: reallocate_fst reallocate_rest init_sampler_simps init_fields_simps)
  qed
qed

theorem construct_without_image_witness:
  "truthy (Num 4) \<and> truthy (Num 2) \<and>
   small_table (default_to (opt_type (given_options None)) (Num (UNSIGNED_BYTE (enums (gl (new_world ())))))) \<noteq> None \<and>
   (Num 4, Num 2, js_or Undefined (Num 0)) \<noteq> (Num (- 1), Num (- 1), Num (- 1)) \<and>
   (\<exists>s. Texture_new small_table (new_world ()) TEXTURE_2D NoImage (Num 4) (Num 2) Undefined False None = Inr s \<and>
        width (fst s) = Num 4 \<and> height (fst s) = Num 2 \<and> depth (fst s) = Num 0 \<and>
        texture (fst s) = Some 1 \<and>
        (\<exists>levels. filter storage_alloc (calls (gl (snd s))) =
           [texStorage2D TEXTURE_2D levels (internalFormat (fst s)) (Num 4) (Num 2)])) \<and>
   truthy (Num (- 1)) \<and>
   (Num (- 1), Num (- 1), js_or (Num (- 1)) (Num 0)) = (Num (- 1), Num (- 1), Num (- 1)) \<and>
   (\<exists>s. Texture_new small_table (new_world ()) TEXTURE_2D NoImage (Num (- 1)) (Num (- 1)) (Num (- 1))
          False None = Inr s \<and>
        width (fst s) = Num (- 1) \<and> height (fst s) = Num (- 1) \<and> depth (fst s) = Num (- 1) \<and>
        texture (fst s) = None \<and>
        filter storage_alloc (calls (gl (snd s))) = [])"
proof -
  have t: "small_table (default_to (opt_type (given_options None)) (Num (UNSIGNED_BYTE (enums (gl (new_world ())))))) \<noteq> None"
    by (simp add: given_options_def DUMMY_OBJECT_def default_to_def new_world_def webgl2_enums_def
        small_table_def)
  have k: "opt_internalFormat (given_options None) \<noteq> Undefined \<or>
      small_table (default_to (opt_type (given_options None)) (Num (UNSIGNED_BYTE (enums (gl (new_world ())))))) \<noteq> None"
    using t by (rule disjI2)
  have o: "(Num 4, Num 2, js_or Undefined (Num 0)) \<noteq> (Num (- 1), Num (- 1), Num (- 1))"
    by simp
  have m: "(Num (- 1), Num (- 1), js_or (Num (- 1)) (Num 0)) = (Num (- 1), Num (- 1), Num (- 1))"
    by (simp add: js_or_def)
  have tr: "truthy (Num 4)" "truthy (Num 2)" "truthy (Num (- 1))"
    by simp_all
  from construct_without_image [where tfd = small_table and b = TEXTURE_2D and ?i3.0 = False
      and dp = Undefined, OF tr(1,2) k] o
  have first: "\<exists>s. Texture_new small_table (new_world ()) TEXTURE_2D NoImage (Num 4) (Num 2) Undefined False None = Inr s \<and>
        width (fst s) = Num 4 \<and> height (fst s) = Num 2 \<and> depth (fst s) = Num 0 \<and>
        texture (fst s) = Some 1 \<and>
        (\<exists>levels. filter storage_alloc (calls (gl (snd s))) =
           [texStorage2D TEXTURE_2D levels (internalFormat (fst s)) (Num 4) (Num 2)])"
    by (simp add: js_or_def new_world_def) blast
  from construct_without_image [where tfd = small_table and b = TEXTURE_2D and ?i3.0 = False
      and dp = "Num (- 1)", OF tr(3,3) k] m
  have second: "\<exists>s. Texture_new small_table (new_world ()) TEXTURE_2D NoImage (Num (- 1)) (Num (- 1)) (Num (- 1))
          False None = Inr s \<and>
        width (fst s) = Num (- 1) \<and> height (fst s) = Num (- 1) \<and> depth (fst s) = Num (- 1) \<and>
        texture (fst s) = None \<and>
        filter storage_alloc (calls (gl (snd s))) = []"
    by (simp add: js_or_def new_world_def) blast
  from t o m tr first second show ?thesis
    by (simp only: simp_thms)
qed

section \<open>Resizing to other dimensions\<close>

text \<open>
  C5. A \<open>resize\<close> whose triple, with the depth defaulted to 0, differs from the
  recorded one first calls \<open>deleteTexture\<close> on the handle the texture held and then
  \<open>createTexture\<close>; the texture then holds the handle of the object just created,
  which is not null and differs from the handle it held, and records the new width,
  height and depth. The handle held before comes from the same context, as every
  handle of a constructed texture does.
\<close>

theorem resize_other_triple_reallocates:
  assumes "handles_owned s"
    and "(w, h, js_or d (Num 0)) \<noteq> (width (fst s), height (fst s), depth (fst s))"
  shows "(\<exists>rest. calls (gl (snd (resize w h d s))) =
            calls (gl (snd s)) @ deleteTexture (texture (fst s)) # createTexture # rest) \<and>
         texture (fst (resize w h d s)) = Some (fresh (gl (snd s))) \<and>
         texture (fst (resize w h d s)) \<noteq> texture (fst s) \<and>
         width (fst (resize w h d s)) = w \<and>
         height (fst (resize w h d s)) = h \<and>
         depth (fst (resize w h d s)) = js_or d (Num 0)"
proof -
  have r: "resize w h d s = reallocate w h (js_or d (Num 0)) s"
    using assms(2) by (rule resize_other)
  have "texture (fst s) \<noteq> Some (fresh (gl (snd s)))"
    using assms(1) by (auto simp: handles_owned_def owned_def)
  then show ?thesis
    by (simp add: r reallocate_fst reallocate_calls)
qed

theorem resize_other_triple_reallocates_witness:
  "handles_owned (resize (Num 4) (Num 4) Undefined (blank ())) \<and>
   (Num 8, Num 4, js_or Undefined (Num 0)) \<noteq>
     (width (fst (resize (Num 4) (Num 4) Undefined (blank ()))),
      height (fst (resize (Num 4) (Num 4) Undefined (blank ()))),
      depth (fst (resize (Num 4) (Num 4) Undefined (blank ())))) \<and>
   texture (fst (resize (Num 4) (Num 4) Undefined (blank ()))) = Some 1 \<and>
   texture (fst (resize (Num 8) (Num 4) Undefined (resize (Num 4) (Num 4) Undefined (blank ())))) = Some 2 \<and>
   width (fst (resize (Num 8) (Num 4) Undefined (resize (Num 4) (Num 4) Undefined (blank ())))) = Num 8 \<and>
   height (fst (resize (Num 8) (Num 4) Undefined (resize (Num 4) (Num 4) Undefined (blank ())))) = Num 4 \<and>
   depth (fst (resize (Num 8) (Num 4) Undefined (resize (Num 4) (Num 4) Undefined (blank ())))) = Num 0"
proof -
  let ?s = "resize (Num 4) (Num 4) Undefined (blank ())"
  have own: "handles_owned ?s"
    by (intro handles_owned_resize handles_owned_blank)
  have alloc: "width (fst ?s) = Num 4" "height (fst ?s) = Num 4" "depth (fst ?s) = Num 0"
    "texture (fst ?s) = Some 1" "fresh (gl (snd ?s)) = 2"
    by (simp_all add: resize_blank reallocate_fst reallocate_rest blank_fields blank_world)
  have other: "(Num 8, Num 4, js_or Undefined (Num 0)) \<noteq> (width (fst ?s), height (fst ?s), depth (fst ?s))"
    by (simp add: alloc)
  from resize_other_triple_reallocates [OF own other] own other alloc
  show ?thesis by (simp add: js_or_def)
qed

section \<open>The default of the mipmap flag\<close>

text \<open>
  C6. In the texture that a construction returns, the \<open>generateMipmaps\<close> flag is, when
  the option is omitted, true exactly when the resolved minification filter (the
  \<open>minFilter\<close> option, or \<open>LINEAR_MIPMAP_NEAREST\<close> when that is omitted) is
  \<open>LINEAR_MIPMAP_NEAREST\<close> or \<open>LINEAR_MIPMAP_LINEAR\<close>; and it is false when the option
  is \<open>false\<close>, whatever the filter.
\<close>

theorem generateMipmaps_default:
  assumes "Texture_new tfd w0 b img wd ht dp i3 opts = Inr s"
  shows "(opt_generateMipmaps (given_options opts) = Undefined \<longrightarrow>
            generateMipmaps (fst s) =
              (default_to (opt_minFilter (given_options opts)) (Num (LINEAR_MIPMAP_NEAREST (enums (gl w0)))) =
                 Num (LINEAR_MIPMAP_NEAREST (enums (gl w0))) \<or>
               default_to (opt_minFilter (given_options opts)) (Num (LINEAR_MIPMAP_NEAREST (enums (gl w0)))) =
                 Num (LINEAR_MIPMAP_LINEAR (enums (gl w0))))) \<and>
         (opt_generateMipmaps (given_options opts) = Bool False \<longrightarrow> \<not> generateMipmaps (fst s))"
  by (simp add: generateMipmaps_Texture_new [OF assms])

theorem generateMipmaps_default_witness:
  "Texture_new small_table (new_world ()) TEXTURE_2D NoImage (Num 4) (Num 2) Undefined False None =
     Inr (made DUMMY_OBJECT ()) \<and>
   opt_generateMipmaps (given_options None) = Undefined \<and>
   generateMipmaps (fst (made DUMMY_OBJECT ())) \<and>
   Texture_new small_table (new_world ()) TEXTURE_2D NoImage (Num 4) (Num 2) Undefined False
     (Some (DUMMY_OBJECT\<lparr>opt_minFilter := Num 9729\<rparr>)) =
     Inr (made (DUMMY_OBJECT\<lparr>opt_minFilter := Num 9729\<rparr>) ()) \<and>
   opt_generateMipmaps (given_options (Some (DUMMY_OBJECT\<lparr>opt_minFilter := Num 9729\<rparr>))) = Undefined \<and>
   \<not> generateMipmaps (fst (made (DUMMY_OBJECT\<lparr>opt_minFilter := Num 9729\<rparr>) ())) \<and>
   Texture_new small_table (new_world ()) TEXTURE_2D NoImage (Num 4) (Num 2) Undefined False
     (Some (DUMMY_OBJECT\<lparr>opt_generateMipmaps := Bool False\<rparr>)) =
     Inr (made (DUMMY_OBJECT\<lparr>opt_generateMipmaps := Bool False\<rparr>) ()) \<and>
   opt_generateMipmaps (given_options (Some (DUMMY_OBJECT\<lparr>opt_generateMipmaps := Bool False\<rparr>))) = Bool False \<and>
   \<not> generateMipmaps (fst (made (DUMMY_OBJECT\<lparr>opt_generateMipmaps := Bool False\<rparr>) ()))"
proof -
  have a: "Texture_new small_table (new_world ()) TEXTURE_2D NoImage (Num 4) (Num 2) Undefined False None =
     Inr (made DUMMY_OBJECT ())"
    by (rule Texture_new_made_default)
  have b: "Texture_new small_table (new_world ()) TEXTURE_2D NoImage (Num 4) (Num 2) Undefined False
     (Some (DUMMY_OBJECT\<lparr>opt_minFilter := Num 9729\<rparr>)) =
     Inr (made (DUMMY_OBJECT\<lparr>opt_minFilter := Num 9729\<rparr>) ())"
    by (rule Texture_new_made) (simp_all add: DUMMY_OBJECT_def)
  have c: "Texture_new small_table (new_world ()) TEXTURE_2D NoImage (Num 4) (Num 2) Undefined False
     (Some (DUMMY_OBJECT\<lparr>opt_generateMipmaps := Bool False\<rparr>)) =
     Inr (made (DUMMY_OBJECT\<lparr>opt_generateMipmaps := Bool False\<rparr>) ())"
    by (rule Texture_new_made) (simp_all add: DUMMY_OBJECT_def)
  from a b c generateMipmaps_default [OF a] generateMipmaps_default [OF b]
    generateMipmaps_default [OF c]
  show ?thesis
    by (simp add: given_options_def DUMMY_OBJECT_def default_to_def new_world_def webgl2_enums_def)
qed

section \<open>Deleting\<close>

text \<open>
  C7. A \<open>delete\<close> of a texture whose handle is not null issues \<open>deleteTexture\<close> and
  \<open>deleteSampler\<close> on the two handles and sets both fields to null; a \<open>delete\<close> of
  a texture whose handle is null returns the texture and the context as they were. A
  second \<open>delete\<close> therefore changes nothing.
\<close>

theorem delete_releases_once:
  "(texture (fst s) \<noteq> None \<longrightarrow>
      fst (delete s) = (fst s)\<lparr>texture := None, sampler := None\<rparr> \<and>
      calls (gl (snd (delete s))) =
        calls (gl (snd s)) @ [deleteTexture (texture (fst s)), deleteSampler (sampler (fst s))]) \<and>
   (texture (fst s) = None \<longrightarrow> delete s = s) \<and>
   delete (delete s) = delete s"
proof (intro conjI impI)
  assume "texture (fst s) \<noteq> None"
  then obtain n where n: "texture (fst s) = Some n" by auto
  show "fst (delete s) = (fst s)\<lparr>texture := None, sampler := None\<rparr>"
    by (simp add: delete_Some [OF n])
  show "calls (gl (snd (delete s))) =
        calls (gl (snd s)) @ [deleteTexture (texture (fst s)), deleteSampler (sampler (fst s))]"
    by (simp add: delete_Some [OF n])
next
  assume "texture (fst s) = None"
  then show "delete s = s" by (rule delete_None)
next
  show "delete (delete s) = delete s"
    by (rule delete_None) (rule texture_delete)
qed

theorem delete_releases_once_witness:
  "texture (fst (resize (Num 4) (Num 4) Undefined (blank ()))) \<noteq> None \<and>
   texture (fst (delete (resize (Num 4) (Num 4) Undefined (blank ())))) = None \<and>
   sampler (fst (delete (resize (Num 4) (Num 4) Undefined (blank ())))) = None \<and>
   calls (gl (snd (delete (resize (Num 4) (Num 4) Undefined (blank ()))))) =
     calls (gl (snd (resize (Num 4) (Num 4) Undefined (blank ())))) @
       [deleteTexture (Some 1), deleteSampler (Some 0)] \<and>
   delete (delete (resize (Num 4) (Num 4) Undefined (blank ()))) =
     delete (resize (Num 4) (Num 4) Undefined (blank ()))"
proof -
  let ?s = "resize (Num 4) (Num 4) Undefined (blank ())"
  have alloc: "texture (fst ?s) = Some 1" "sampler (fst ?s) = Some 0"
    by (simp_all add: resize_blank reallocate_fst blank_fields blank_world)
  from alloc delete_releases_once [of ?s] show ?thesis by simp
qed

section \<open>The sampler after construction\<close>

text \<open>
  C8. A construction creates one sampler: of the calls it adds that create or program
  a sampler, the first is \<open>createSampler\<close> and all the others set a parameter, and the
  texture holds the handle of the sampler created. After it, whatever \<open>resize\<close>,
  \<open>data\<close> and \<open>bind\<close> calls follow, the texture holds that same handle, and not
  one call that creates or programs a sampler has been added.
\<close>

theorem sampler_set_once:
  assumes "Texture_new tfd w0 b img wd ht dp i3 opts = Inr s"
  shows "sampler (fst s) = Some (fresh (gl w0)) \<and>
         (\<exists>ps. filter sampler_setup (calls (gl (snd s))) =
                 filter sampler_setup (calls (gl w0)) @ createSampler # ps \<and>
               list_all sampler_parameter ps) \<and>
         (\<forall>ops. sampler (fst (run ops s)) = sampler (fst s) \<and>
                filter sampler_setup (calls (gl (snd (run ops s)))) =
                  filter sampler_setup (calls (gl (snd s))))"
proof -
  from Texture_new_Inr [OF assms] obtain wd1 ht1 ifmt where
    s: "s = bind 0 (data img (resize wd1 ht1 dp
                 (init_fields (enums (gl w0)) b i3 (given_options opts) ifmt
                    (fst (init_sampler (given_options opts) w0)),
                  snd (init_sampler (given_options opts) w0))))"
    by blast
  obtain ps where ps: "calls (gl (snd (init_sampler (given_options opts) w0))) =
      calls (gl w0) @ createSampler # ps" "list_all sampler_parameter ps"
    using init_sampler_calls by blast
  have "sampler (fst s) = Some (fresh (gl w0))"
    by (simp add: s sampler_resize init_fields_simps init_sampler_simps)
  moreover have "filter sampler_setup (calls (gl (snd s))) =
      filter sampler_setup (calls (gl w0)) @ createSampler # ps"
    by (simp add: s sampler_data sampler_resize ps sampler_parameter_setup)
  ultimately show ?thesis
    using ps(2) sampler_run by blast
qed

theorem sampler_set_once_witness:
  "Texture_new small_table (new_world ()) TEXTURE_2D NoImage (Num 4) (Num 2) Undefined False None =
     Inr (made DUMMY_OBJECT ()) \<and>
   sampler (fst (made DUMMY_OBJECT ())) = Some 0 \<and>
   sampler (fst (run [Resize (Num 8) (Num 8) Undefined, Data (Image (Num 8) (Num 8)), Bind 2,
                      Resize (Num 16) (Num 8) (Num 1)] (made DUMMY_OBJECT ()))) = Some 0 \<and>
   filter sampler_setup
     (calls (gl (snd (run [Resize (Num 8) (Num 8) Undefined, Data (Image (Num 8) (Num 8)), Bind 2,
                           Resize (Num 16) (Num 8) (Num 1)] (made DUMMY_OBJECT ()))))) =
     filter sampler_setup (calls (gl (snd (made DUMMY_OBJECT ()))))"
proof -
  have a: "Texture_new small_table (new_world ()) TEXTURE_2D NoImage (Num 4) (Num 2) Undefined False None =
     Inr (made DUMMY_OBJECT ())"
    by (rule Texture_new_made_default)
  let ?ops = "[Resize (Num 8) (Num 8) Undefined, Data (Image (Num 8) (Num 8)), Bind 2,
               Resize (Num 16) (Num 8) (Num 1)]"
  from sampler_set_once [OF a]
  have made: "sampler (fst (made DUMMY_OBJECT ())) = Some (fresh (gl (new_world ())))"
    and after: "\<forall>ops. sampler (fst (run ops (made DUMMY_OBJECT ()))) = sampler (fst (made DUMMY_OBJECT ())) \<and>
                filter sampler_setup (calls (gl (snd (run ops (made DUMMY_OBJECT ()))))) =
                  filter sampler_setup (calls (gl (snd (made DUMMY_OBJECT ()))))"
    by blast+
  from made have "sampler (fst (made DUMMY_OBJECT ())) = Some 0"
    by (simp add: new_world_def)
  with a spec [OF after, of ?ops] show ?thesis
    by (simp only: simp_thms)
qed

section \<open>The mipmap flag and the filter\<close>

text \<open>
  C9. In the texture that a construction returns, the \<open>generateMipmaps\<close> flag is false
  whenever the resolved minification filter is neither \<open>LINEAR_MIPMAP_NEAREST\<close> nor
  \<open>LINEAR_MIPMAP_LINEAR\<close>, whatever the \<open>generateMipmaps\<close> option says: also when it
  is \<open>true\<close>.
\<close>

theorem generateMipmaps_needs_filter:
  assumes "Texture_new tfd w0 b img wd ht dp i3 opts = Inr s"
    and "default_to (opt_minFilter (given_options opts)) (Num (LINEAR_MIPMAP_NEAREST (enums (gl w0)))) \<noteq>
           Num (LINEAR_MIPMAP_NEAREST (enums (gl w0)))"
    and "default_to (opt_minFilter (given_options opts)) (Num (LINEAR_MIPMAP_NEAREST (enums (gl w0)))) \<noteq>
           Num (LINEAR_MIPMAP_LINEAR (enums (gl w0)))"
  shows "\<not> generateMipmaps (fst s)"
  using assms(2,3) by (simp add: generateMipmaps_Texture_new [OF assms(1)])

theorem generateMipmaps_needs_filter_witness:
  "Texture_new small_table (new_world ()) TEXTURE_2D NoImage (Num 4) (Num 2) Undefined False
     (Some (DUMMY_OBJECT\<lparr>opt_minFilter := Num 9729, opt_generateMipmaps := Bool True\<rparr>)) =
     Inr (made (DUMMY_OBJECT\<lparr>opt_minFilter := Num 9729, opt_generateMipmaps := Bool True\<rparr>) ()) \<and>
   opt_generateMipmaps
     (given_options (Some (DUMMY_OBJECT\<lparr>opt_minFilter := Num 9729, opt_generateMipmaps := Bool True\<rparr>))) =
     Bool True \<and>
   default_to
     (opt_minFilter (given_options (Some (DUMMY_OBJECT\<lparr>opt_minFilter := Num 9729, opt_generateMipmaps := Bool True\<rparr>))))
     (Num (LINEAR_MIPMAP_NEAREST (enums (gl (new_world ()))))) = Num 9729 \<and>
   Num 9729 \<noteq> Num (LINEAR_MIPMAP_NEAREST (enums (gl (new_world ())))) \<and>
   Num 9729 \<noteq> Num (LINEAR_MIPMAP_LINEAR (enums (gl (new_world ())))) \<and>
   \<not> generateMipmaps
       (fst (made (DUMMY_OBJECT\<lparr>opt_minFilter := Num 9729, opt_generateMipmaps := Bool True\<rparr>) ()))"
proof -
  let ?opts = "DUMMY_OBJECT\<lparr>opt_minFilter := Num 9729, opt_generateMipmaps := Bool True\<rparr>"
  have a: "Texture_new small_table (new_world ()) TEXTURE_2D NoImage (Num 4) (Num 2) Undefined False
     (Some ?opts) = Inr (made ?opts ())"
    by (rule Texture_new_made) (simp_all add: DUMMY_OBJECT_def)
  have f: "default_to (opt_minFilter (given_options (Some ?opts)))
             (Num (LINEAR_MIPMAP_NEAREST (enums (gl (new_world ()))))) = Num 9729"
    by (simp add: given_options_def default_to_def)
  have n: "Num 9729 \<noteq> Num (LINEAR_MIPMAP_NEAREST (enums (gl (new_world ()))))"
    "Num 9729 \<noteq> Num (LINEAR_MIPMAP_LINEAR (enums (gl (new_world ()))))"
    by (simp_all add: new_world_def webgl2_enums_def)
  have "\<not> generateMipmaps (fst (made ?opts ()))"
    using generateMipmaps_needs_filter [OF a] f n by simp
  with a f n show ?thesis
    by (simp add: given_options_def)
qed

section \<open>Resizing after deleting\<close>

text \<open>
  C10. \<open>delete\<close> keeps the recorded width, height and depth. So a \<open>resize\<close> to the
  recorded triple after a \<open>delete\<close> is stopped by the guard: it returns the deleted
  texture as it is, with a null handle beside the dimensions of the storage it no longer
  owns.
\<close>

theorem resize_after_delete_is_noop:
  "width (fst (delete s)) = width (fst s) \<and>
   height (fst (delete s)) = height (fst s) \<and>
   depth (fst (delete s)) = depth (fst s) \<and>
   (width (fst s) = w \<and> height (fst s) = h \<and> depth (fst s) = js_or d (Num 0) \<longrightarrow>
      resize w h d (delete s) = delete s \<and>
      texture (fst (resize w h d (delete s))) = None)"
proof (intro conjI impI)
  assume same: "width (fst s) = w \<and> height (fst s) = h \<and> depth (fst s) = js_or d (Num 0)"
  then show noop: "resize w h d (delete s) = delete s"
    by (intro resize_same) (simp_all add: dims_delete)
  show "texture (fst (resize w h d (delete s))) = None"
    by (simp add: noop texture_delete)
qed (rule dims_delete)+

theorem resize_after_delete_is_noop_witness:
  "width (fst (resize (Num 4) (Num 2) Undefined (blank ()))) = Num 4 \<and>
   height (fst (resize (Num 4) (Num 2) Undefined (blank ()))) = Num 2 \<and>
   depth (fst (resize (Num 4) (Num 2) Undefined (blank ()))) = js_or Undefined (Num 0) \<and>
   texture (fst (resize (Num 4) (Num 2) Undefined (blank ()))) = Some 1 \<and>
   width (fst (delete (resize (Num 4) (Num 2) Undefined (blank ())))) = Num 4 \<and>
   height (fst (delete (resize (Num 4) (Num 2) Undefined (blank ())))) = Num 2 \<and>
   depth (fst (delete (resize (Num 4) (Num 2) Undefined (blank ())))) = Num 0 \<and>
   texture (fst (resize (Num 4) (Num 2) Undefined
                   (delete (resize (Num 4) (Num 2) Undefined (blank ()))))) = None"
proof -
  let ?s = "resize (Num 4) (Num 2) Undefined (blank ())"
  have alloc: "width (fst ?s) = Num 4" "height (fst ?s) = Num 2" "depth (fst ?s) = Num 0"
    "texture (fst ?s) = Some 1"
    by (simp_all add: resize_blank reallocate_fst blank_fields blank_world)
  from alloc resize_after_delete_is_noop [of ?s "Num 4" "Num 2" Undefined]
  show ?thesis by (simp add: js_or_def texture_delete)
qed

end
